theory Spec2Isabelle
  imports Complex_Main "HOL-Library.AList" "HOL-Library.Sublist"
    "HOL-Library.Char_ord" "HOL-Library.List_Lexorder"
begin

section \<open>The recommendation engine (ml\_integration.py)\<close>

text \<open>
  The engine class \<^verbatim>\<open>MLEngine\<close> keeps a dictionary \<^verbatim>\<open>self.models\<close> and a
  SQLite table \<^verbatim>\<open>user_interactions\<close>. Both are fields of an explicit state record
  here; every method takes the state and, where it writes, returns the new one.
  Python floats are modelled as \<^typ>\<open>real\<close>: arithmetic is exact, there is no NaN
  (the one place the source tests for NaN, the mean of an empty selection, is a
  branch on emptiness) and no rounding. Identifiers are Python \<^verbatim>\<open>str\<close>, here
  \<^typ>\<open>string\<close>, ordered as Python orders them (by code point, lexicographically).
\<close>

subsection \<open>Data\<close>

text \<open>The dictionary stored under \<^verbatim>\<open>self.models['collaborative']\<close> when training
  succeeds: two similarity matrices (numpy arrays), the two index lists and the pivot
  table (rows are users, columns are items, absent ratings are 0).\<close>

record collab =
  user_similarity :: "real list list"
  item_similarity :: "real list list"
  user_index :: "string list"
  item_index :: "string list"
  pivot_table :: "real list list"

text \<open>The value under \<^verbatim>\<open>'collaborative'\<close> is either the dictionary above or the
  marker \<^verbatim>\<open>{'fallback': True}\<close> written when scikit-learn cannot be imported.\<close>

datatype cf_model = Fallback_marker | Collaborative collab

text \<open>A row of \<^verbatim>\<open>user_interactions\<close>; the primary key is
  \<^verbatim>\<open>(user_id, item_id, timestamp)\<close>.\<close>

record interaction =
  i_user_id :: string
  i_item_id :: string
  i_rating :: real
  i_timestamp :: string
  i_context :: string

record engine =
  models :: "(string \<times> cf_model) list"
  user_interactions :: "interaction list"

text \<open>The dictionary every prediction returns; its key \<^verbatim>\<open>method\<close> is the field
  \<open>method_tag\<close>.\<close>

record prediction =
  rating :: real
  confidence :: real
  method_tag :: string

datatype py_error = IndexError | ValueError

subsection \<open>\<^verbatim>\<open>_predict_collaborative\<close>\<close>

text \<open>\<^verbatim>\<open>xs.index(x)\<close>, called only after \<^verbatim>\<open>x in xs\<close> has been checked.\<close>

fun index_of :: "string list \<Rightarrow> string \<Rightarrow> nat" where
  "index_of [] x = 0"
| "index_of (y # ys) x = (if y = x then 0 else Suc (index_of ys x))"

text \<open>\<^verbatim>\<open>model["user_similarity"][user_idx]\<close>: a row of a two-dimensional array;
  numpy raises IndexError beyond the last row.\<close>

definition matrix_row :: "real list list \<Rightarrow> nat \<Rightarrow> py_error + real list" where
  "matrix_row m i = (if i < length m then Inr (m ! i) else Inl IndexError)"

text \<open>\<^verbatim>\<open>pivot_table.iloc[:, item_idx]\<close>: a column of the frame; pandas raises
  IndexError when the position is not a column. The frame is the list of its rows; the
  frame without rows is the empty frame, which has no column.\<close>

definition iloc_column :: "real list list \<Rightarrow> nat \<Rightarrow> py_error + real list" where
  "iloc_column t j =
     (if t \<noteq> [] \<and> list_all (\<lambda>row. j < length row) t then Inr (map (\<lambda>row. row ! j) t)
      else Inl IndexError)"

text \<open>\<^verbatim>\<open>np.where((user_similarities > 0.1) & (item_ratings > 0))[0]\<close>: the
  positions where both tests hold, ascending. The elementwise \<^verbatim>\<open>&\<close> of the array
  with the column takes operands of the same length; an array of length 1 is broadcast
  along the column; any other pair of lengths raises.\<close>

definition similar_users :: "real list \<Rightarrow> real list \<Rightarrow> py_error + nat list" where
  "similar_users sims ratings =
     (if length sims = length ratings
      then Inr (filter (\<lambda>k. sims ! k > 1 / 10 \<and> ratings ! k > 0) [0..<length sims])
      else if length sims = 1
      then Inr (filter (\<lambda>k. sims ! 0 > 1 / 10 \<and> ratings ! k > 0) [0..<length ratings])
      else Inl ValueError)"

text \<open>\<^verbatim>\<open>user_similarities[similar_users]\<close>: the entries at the given positions;
  numpy raises IndexError for a position beyond the array.\<close>

definition take_positions :: "real list \<Rightarrow> nat list \<Rightarrow> py_error + real list" where
  "take_positions xs ks =
     (if list_all (\<lambda>k. k < length xs) ks then Inr (map (\<lambda>k. xs ! k) ks)
      else Inl IndexError)"

text \<open>\<^verbatim>\<open>np.clip(x, 1.0, 5.0)\<close>.\<close>

definition clip :: "real \<Rightarrow> real \<Rightarrow> real \<Rightarrow> real" where
  "clip x lo hi = min (max x lo) hi"

text \<open>\<^verbatim>\<open>np.average(ratings, weights=weights)\<close>, called only when the weights' sum
  is positive.\<close>

definition average :: "real list \<Rightarrow> real list \<Rightarrow> real" where
  "average rs ws = sum_list (map2 (*) rs ws) / sum_list ws"

text \<open>The tail of the method: \<^verbatim>\<open>np.mean(item_ratings[item_ratings > 0])\<close> is NaN
  exactly when nothing is selected.\<close>

definition item_average :: "real list \<Rightarrow> prediction" where
  "item_average ratings =
     (let observed = filter (\<lambda>r. r > 0) ratings in
      if observed \<noteq> []
      then \<lparr>rating = sum_list observed / real (length observed), confidence = 4 / 10,
            method_tag = ''collaborative''\<rparr>
      else \<lparr>rating = 35 / 10, confidence = 2 / 10, method_tag = ''collaborative''\<rparr>)"

text \<open>The part of the \<^verbatim>\<open>try\<close> block after the two membership tests.\<close>

definition neighbour_estimate :: "collab \<Rightarrow> string \<Rightarrow> string \<Rightarrow> py_error + prediction" where
  "neighbour_estimate m user_id item_id =
     (let user_idx = index_of (user_index m) user_id;
          item_idx = index_of (item_index m) item_id
      in case matrix_row (user_similarity m) user_idx of
           Inl e \<Rightarrow> Inl e
         | Inr user_similarities \<Rightarrow>
        (case iloc_column (pivot_table m) item_idx of
           Inl e \<Rightarrow> Inl e
         | Inr item_ratings \<Rightarrow>
        (case similar_users user_similarities item_ratings of
           Inl e \<Rightarrow> Inl e
         | Inr similar \<Rightarrow>
             if length similar > 0
             then (case take_positions user_similarities similar of
                     Inl e \<Rightarrow> Inl e
                   | Inr weights \<Rightarrow>
                       (let ratings = map (\<lambda>k. item_ratings ! k) similar
                        in if sum_list weights > 0
                           then Inr \<lparr>rating = clip (average ratings weights) 1 5,
                                     confidence = min (real (length similar) / 10) (9 / 10),
                                     method_tag = ''collaborative''\<rparr>
                           else Inr (item_average item_ratings)))
             else Inr (item_average item_ratings))))"

text \<open>\<^verbatim>\<open>_predict_collaborative\<close>, entered only when \<^verbatim>\<open>'collaborative'\<close> is a key of
  \<^verbatim>\<open>self.models\<close>; the \<^verbatim>\<open>except Exception\<close> clause turns every failure of the body
  into the 0.1-confidence result.\<close>

definition predict_collaborative :: "cf_model \<Rightarrow> string \<Rightarrow> string \<Rightarrow> prediction" where
  "predict_collaborative model user_id item_id =
     (case model of
        Fallback_marker \<Rightarrow> \<lparr>rating = 35 / 10, confidence = 3 / 10, method_tag = ''collaborative''\<rparr>
      | Collaborative m \<Rightarrow>
          if user_id \<notin> set (user_index m) \<or> item_id \<notin> set (item_index m)
          then \<lparr>rating = 35 / 10, confidence = 2 / 10, method_tag = ''collaborative''\<rparr>
          else (case neighbour_estimate m user_id item_id of
                  Inr p \<Rightarrow> p
                | Inl e \<Rightarrow> \<lparr>rating = 35 / 10, confidence = 1 / 10, method_tag = ''collaborative''\<rparr>))"

subsection \<open>\<^verbatim>\<open>predict_rating\<close>\<close>

definition predict_rating :: "engine \<Rightarrow> string \<Rightarrow> string \<Rightarrow> string \<Rightarrow> prediction" where
  "predict_rating s user_id item_id meth =
     (if meth \<in> set [''collaborative'', ''hybrid'']
      then (case map_of (models s) ''collaborative'' of
              Some model \<Rightarrow> predict_collaborative model user_id item_id
            | None \<Rightarrow> \<lparr>rating = 35 / 10, confidence = 3 / 10, method_tag = ''fallback''\<rparr>)
      else \<lparr>rating = 35 / 10, confidence = 3 / 10, method_tag = ''fallback''\<rparr>)"

subsection \<open>\<^verbatim>\<open>get_recommendations\<close>\<close>

record recommendation =
  item_id :: string
  predicted_rating :: real
  rec_confidence :: real
  rec_method :: string

definition recommend :: "engine \<Rightarrow> string \<Rightarrow> string \<Rightarrow> recommendation" where
  "recommend s user_id item =
     (let p = predict_rating s user_id item ''hybrid''
      in \<lparr>item_id = item, predicted_rating = rating p, rec_confidence = confidence p,
          rec_method = method_tag p\<rparr>)"

text \<open>The sort key \<^verbatim>\<open>x["predicted_rating"] * x["confidence"]\<close>.\<close>

definition score :: "recommendation \<Rightarrow> real" where
  "score x = predicted_rating x * rec_confidence x"

text \<open>The slice \<^verbatim>\<open>xs[:k]\<close>: a negative \<^verbatim>\<open>k\<close> counts from the end.\<close>

definition slice_to :: "'a list \<Rightarrow> int \<Rightarrow> 'a list" where
  "slice_to xs k = (if 0 \<le> k then take (nat k) xs else take (nat (int (length xs) + k)) xs)"

text \<open>\<^verbatim>\<open>list.sort(key=..., reverse=True)\<close> is stable: entries with equal keys keep
  their order. \<^const>\<open>sort_key\<close> is a stable insertion sort, and descending order of
  the key is ascending order of its negation.\<close>

definition get_recommendations :: "engine \<Rightarrow> string \<Rightarrow> string list \<Rightarrow> int \<Rightarrow> recommendation list" where
  "get_recommendations s user_id item_ids top_k =
     slice_to (sort_key (\<lambda>x. - score x) (map (recommend s user_id) item_ids)) top_k"

subsection \<open>\<^verbatim>\<open>update_model_with_feedback\<close> and \<^verbatim>\<open>get_model_performance\<close>\<close>

definition same_key :: "interaction \<Rightarrow> interaction \<Rightarrow> bool" where
  "same_key a b \<longleftrightarrow>
     i_user_id a = i_user_id b \<and> i_item_id a = i_item_id b \<and> i_timestamp a = i_timestamp b"

text \<open>\<^verbatim>\<open>INSERT OR REPLACE\<close>: the rows that conflict with the new one on the primary
  key are deleted, then the new row is inserted.\<close>

definition insert_or_replace :: "interaction \<Rightarrow> interaction list \<Rightarrow> interaction list" where
  "insert_or_replace r rows = filter (\<lambda>x. \<not> same_key x r) rows @ [r]"

text \<open>The reading of the clock, \<^verbatim>\<open>datetime.now().isoformat()\<close>, is the argument
  \<open>now\<close>. The stored context is \<^verbatim>\<open>context or ""\<close>: the empty string for
  \<^verbatim>\<open>None\<close> (and for the empty string itself).\<close>

definition update_model_with_feedback ::
  "engine \<Rightarrow> string \<Rightarrow> string \<Rightarrow> real \<Rightarrow> string option \<Rightarrow> string \<Rightarrow> engine" where
  "update_model_with_feedback s user_id item rating_value context now =
     s\<lparr>user_interactions :=
         insert_or_replace
           \<lparr>i_user_id = user_id, i_item_id = item, i_rating = rating_value, i_timestamp = now,
            i_context = (case context of None \<Rightarrow> [] | Some c \<Rightarrow> c)\<rparr>
           (user_interactions s)\<rparr>"

record performance =
  total_interactions :: nat
  models_available :: "string list"
  status :: string

definition get_model_performance :: "engine \<Rightarrow> performance" where
  "get_model_performance s =
     \<lparr>total_interactions = length (user_interactions s),
      models_available = map fst (models s),
      status = ''operational''\<rparr>"

subsection \<open>\<^verbatim>\<open>_train_collaborative_filtering\<close>\<close>

text \<open>Of a row of the training frame only \<^verbatim>\<open>user_id\<close>, \<^verbatim>\<open>item_id\<close> and
  \<^verbatim>\<open>rating\<close> reach the pivot table.\<close>

type_synonym training_row = "string \<times> string \<times> real"

definition row_user :: "training_row \<Rightarrow> string" where
  "row_user r = fst r"

definition row_item :: "training_row \<Rightarrow> string" where
  "row_item r = fst (snd r)"

definition row_rating :: "training_row \<Rightarrow> real" where
  "row_rating r = snd (snd r)"

text \<open>\<^verbatim>\<open>data.pivot_table(index='user_id', columns='item_id', values='rating',
  fill_value=0)\<close>: the labels are the distinct identifiers in ascending order, a cell
  is the mean (the default aggregation) of the ratings recorded for the pair, and 0
  where there is none.\<close>

definition pivot_users :: "training_row list \<Rightarrow> string list" where
  "pivot_users data = sort (remdups (map row_user data))"

definition pivot_items :: "training_row list \<Rightarrow> string list" where
  "pivot_items data = sort (remdups (map row_item data))"

definition pivot_cell :: "training_row list \<Rightarrow> string \<Rightarrow> string \<Rightarrow> real" where
  "pivot_cell data u i =
     (let rs = map row_rating (filter (\<lambda>r. row_user r = u \<and> row_item r = i) data)
      in if rs = [] then 0 else sum_list rs / real (length rs))"

definition pivot_values :: "training_row list \<Rightarrow> real list list" where
  "pivot_values data =
     map (\<lambda>u. map (\<lambda>i. pivot_cell data u i) (pivot_items data)) (pivot_users data)"

text \<open>\<^verbatim>\<open>pivot_table.T.values\<close> for a table of \<open>n\<close> columns.\<close>

definition transposed :: "nat \<Rightarrow> real list list \<Rightarrow> real list list" where
  "transposed n rows = map (\<lambda>j. map (\<lambda>row. row ! j) rows) [0..<n]"

text \<open>Modelled from the spec: \<^verbatim>\<open>sklearn.metrics.pairwise.cosine_similarity\<close> is
  imported from a library and is not part of the sources. The specification gives
  \<open>similarity[i][j] = cosine_similarity(row_i, row_j)\<close> over all pairs of rows, and
  "cosine similarity of a zero vector with anything is defined as 0".\<close>

definition dot :: "real list \<Rightarrow> real list \<Rightarrow> real" where
  "dot x y = sum_list (map2 (*) x y)"

definition cosine :: "real list \<Rightarrow> real list \<Rightarrow> real" where
  "cosine x y =
     (if dot x x = 0 \<or> dot y y = 0 then 0
      else dot x y / (sqrt (dot x x) * sqrt (dot y y)))"

definition cosine_similarity :: "real list list \<Rightarrow> real list list" where
  "cosine_similarity X = map (\<lambda>x. map (\<lambda>y. cosine x y) X) X"

text \<open>The dictionary assembled after the two similarity computations.\<close>

definition build_model :: "training_row list \<Rightarrow> collab" where
  "build_model data =
     (let values = pivot_values data
      in \<lparr>user_similarity = cosine_similarity values,
          item_similarity = cosine_similarity (transposed (length (pivot_items data)) values),
          user_index = pivot_users data,
          item_index = pivot_items data,
          pivot_table = values\<rparr>)"

text \<open>The method. An empty frame has no \<^verbatim>\<open>rating\<close> column, so the pivot raises
  before the import is reached and the \<^verbatim>\<open>except Exception\<close> clause leaves
  \<^verbatim>\<open>self.models\<close> as it was. Whether scikit-learn can be imported is the argument
  \<open>sklearn\<close>; without it the marker is stored. Writing the pickle file has no effect
  on the state.\<close>

definition train_collaborative_filtering :: "engine \<Rightarrow> bool \<Rightarrow> training_row list \<Rightarrow> engine" where
  "train_collaborative_filtering s sklearn data =
     (if data = [] then s
      else if \<not> sklearn
      then s\<lparr>models := AList.update ''collaborative'' Fallback_marker (models s)\<rparr>
      else s\<lparr>models := AList.update ''collaborative'' (Collaborative (build_model data)) (models s)\<rparr>)"

section \<open>The request boundary (java\_python\_bridge.py)\<close>

text \<open>A request is the dictionary \<^verbatim>\<open>json.loads\<close> returns: string keys, and values
  that are \<^verbatim>\<open>None\<close>, booleans, integers (of any size), floats, strings, lists or
  dictionaries.\<close>

datatype pyval =
    PNone
  | PBool bool
  | PInt int
  | PFloat real
  | PStr string
  | PList "pyval list"
  | PDict "(string \<times> pyval) list"

text \<open>Python's truth value, as \<^verbatim>\<open>not x\<close> and \<^verbatim>\<open>all([...])\<close> test it.\<close>

fun truthy :: "pyval \<Rightarrow> bool" where
  "truthy PNone = False"
| "truthy (PBool b) = b"
| "truthy (PInt n) = (n \<noteq> 0)"
| "truthy (PFloat x) = (x \<noteq> 0)"
| "truthy (PStr s) = (s \<noteq> [])"
| "truthy (PList xs) = (xs \<noteq> [])"
| "truthy (PDict kvs) = (kvs \<noteq> [])"

text \<open>\<^verbatim>\<open>data.get(key)\<close> and \<^verbatim>\<open>data.get(key, default)\<close>.\<close>

definition dict_get :: "(string \<rightharpoonup> pyval) \<Rightarrow> string \<Rightarrow> pyval" where
  "dict_get data k = (case data k of None \<Rightarrow> PNone | Some v \<Rightarrow> v)"

definition dict_get_default :: "(string \<rightharpoonup> pyval) \<Rightarrow> string \<Rightarrow> pyval \<Rightarrow> pyval" where
  "dict_get_default data k d = (case data k of None \<Rightarrow> d | Some v \<Rightarrow> v)"

text \<open>The response dictionaries. The engine's methods are modelled on arguments of
  their annotated types (\<^verbatim>\<open>str\<close>, \<^verbatim>\<open>float\<close>, optional \<^verbatim>\<open>str\<close>); a request that
  passes the presence test with a value of another type is answered by
  \<open>Untyped_payload\<close>, which stands for whatever the dynamically typed call does and
  about which nothing is stated.\<close>

datatype response =
    Error string
  | Prediction_success prediction
  | Message_success string
  | Untyped_payload

definition handle_rating_prediction :: "engine \<Rightarrow> (string \<rightharpoonup> pyval) \<Rightarrow> response" where
  "handle_rating_prediction s data =
     (let user_id = dict_get data ''user_id'';
          item = dict_get data ''item_id'';
          meth = dict_get_default data ''method'' (PStr ''hybrid'')
      in if \<not> truthy user_id \<or> \<not> truthy item then Error ''Missing user_id or item_id''
         else (case (user_id, item, meth) of
                 (PStr u, PStr i, PStr m) \<Rightarrow> Prediction_success (predict_rating s u i m)
               | _ \<Rightarrow> Untyped_payload))"

text \<open>The rating as the \<^verbatim>\<open>INSERT\<close> binds it: a float is stored as it is, an integer
  that fits SQLite's signed 64-bit INTEGER is stored as that number, and for a larger
  integer the binding raises OverflowError, whose text the \<^verbatim>\<open>except\<close> clause of the
  handler returns. Values that are not numbers are outside the annotated type.\<close>

definition bind_rating :: "pyval \<Rightarrow> (string + real) option" where
  "bind_rating v =
     (case v of
        PFloat x \<Rightarrow> Some (Inr x)
      | PInt n \<Rightarrow>
          if - (2 ^ 63) \<le> n \<and> n < 2 ^ 63 then Some (Inr (real_of_int n))
          else Some (Inl ''Python int too large to convert to SQLite INTEGER'')
      | _ \<Rightarrow> None)"

text \<open>The context, absent (or \<^verbatim>\<open>None\<close>) or a string.\<close>

definition optional_text :: "pyval \<Rightarrow> string option option" where
  "optional_text v = (case v of PNone \<Rightarrow> Some None | PStr c \<Rightarrow> Some (Some c) | _ \<Rightarrow> None)"

definition handle_feedback_update ::
  "engine \<Rightarrow> string \<Rightarrow> (string \<rightharpoonup> pyval) \<Rightarrow> engine \<times> response" where
  "handle_feedback_update s now data =
     (let user_id = dict_get data ''user_id'';
          item = dict_get data ''item_id'';
          rating_value = dict_get data ''rating'';
          context = dict_get data ''context''
      in if \<not> list_all id [truthy user_id, truthy item, rating_value \<noteq> PNone]
         then (s, Error ''Missing required fields'')
         else (case (user_id, item, bind_rating rating_value, optional_text context) of
                 (PStr u, PStr i, Some (Inr r), Some c) \<Rightarrow>
                   (update_model_with_feedback s u i r c now, Message_success ''Feedback updated'')
               | (PStr u, PStr i, Some (Inl raised), Some c) \<Rightarrow> (s, Error raised)
               | _ \<Rightarrow> (s, Untyped_payload)))"

section \<open>Notions of the specification\<close>

text \<open>What every trained model has: the labels of the users are distinct, and so are
  those of the items; both the similarity matrix of the users and the pivot table have
  one row per user, the former as wide as there are users, the latter as wide as there
  are items.\<close>

definition well_formed :: "collab \<Rightarrow> bool" where
  "well_formed m \<longleftrightarrow>
     distinct (user_index m) \<and> distinct (item_index m) \<and>
     length (user_similarity m) = length (user_index m) \<and>
     list_all (\<lambda>row. length row = length (user_index m)) (user_similarity m) \<and>
     length (pivot_table m) = length (user_index m) \<and>
     list_all (\<lambda>row. length row = length (item_index m)) (pivot_table m)"

text \<open>The range of the ratings the data model allows, with 0 for an absent rating.\<close>

definition ratings_in_range :: "collab \<Rightarrow> bool" where
  "ratings_in_range m \<longleftrightarrow>
     list_all (list_all (\<lambda>r. r = 0 \<or> (1 \<le> r \<and> r \<le> 5))) (pivot_table m)"

text \<open>The neighbour set of user \<open>u\<close> for item \<open>i\<close> (both given by position) in the
  words of the specification: the users whose similarity to \<open>u\<close> exceeds 0.1 and who
  have an observed rating above 0 for the item; and the similarity-weighted average of
  their ratings.\<close>

definition neighbour_set :: "collab \<Rightarrow> nat \<Rightarrow> nat \<Rightarrow> nat set" where
  "neighbour_set m u i =
     {k. k < length (user_index m) \<and> user_similarity m ! u ! k > 1 / 10 \<and> pivot_table m ! k ! i > 0}"

definition weighted_mean :: "collab \<Rightarrow> nat \<Rightarrow> nat \<Rightarrow> real" where
  "weighted_mean m u i =
     (\<Sum>k \<in> neighbour_set m u i. user_similarity m ! u ! k * pivot_table m ! k ! i) /
     (\<Sum>k \<in> neighbour_set m u i. user_similarity m ! u ! k)"

text \<open>The order the specification asks of a ranking: descending score, equal scores by
  ascending item identifier.\<close>

definition ranked_as_specified :: "recommendation list \<Rightarrow> bool" where
  "ranked_as_specified rs \<longleftrightarrow>
     sorted_wrt (\<lambda>a b. score a > score b \<or> (score a = score b \<and> item_id a \<le> item_id b)) rs"

text \<open>A row with the primary key \<open>(user, item, now)\<close> is stored.\<close>

definition key_present :: "engine \<Rightarrow> string \<Rightarrow> string \<Rightarrow> string \<Rightarrow> bool" where
  "key_present s user item now \<longleftrightarrow>
     list_ex (\<lambda>x. i_user_id x = user \<and> i_item_id x = item \<and> i_timestamp x = now)
       (user_interactions s)"

text \<open>The constraint SQLite keeps on the table: no two rows have the same primary
  key.\<close>

definition row_key :: "interaction \<Rightarrow> string \<times> string \<times> string" where
  "row_key x = (i_user_id x, i_item_id x, i_timestamp x)"

definition primary_key_holds :: "engine \<Rightarrow> bool" where
  "primary_key_holds s \<longleftrightarrow> distinct (map row_key (user_interactions s))"

section \<open>Example states and inputs\<close>

text \<open>An engine without a model, and one holding the marker.\<close>

definition blank :: engine where
  "blank = \<lparr>models = [], user_interactions = []\<rparr>"

definition marked :: engine where
  "marked = \<lparr>models = [(''collaborative'', Fallback_marker)], user_interactions = []\<rparr>"

text \<open>A model of two users and one item that user \<open>B\<close> rated 4, and an engine
  holding it.\<close>

definition two_users :: collab where
  "two_users =
     \<lparr>user_similarity = [[1, 1 / 2], [1 / 2, 1]],
      item_similarity = [[1]],
      user_index = [''A'', ''B''],
      item_index = [''X''],
      pivot_table = [[0], [4]]\<rparr>"

definition serving :: engine where
  "serving = \<lparr>models = [(''collaborative'', Collaborative two_users)], user_interactions = []\<rparr>"

text \<open>A store holding one interaction.\<close>

definition logged :: engine where
  "logged =
     \<lparr>models = [],
      user_interactions =
        [\<lparr>i_user_id = ''u'', i_item_id = ''i'', i_rating = 3,
          i_timestamp = ''2026-01-01T00:00:00'', i_context = ''''\<rparr>]\<rparr>"

text \<open>Training frames: one with a rating of 7, and the frame of two users with the
  same ratings for two items.\<close>

definition skewed :: "training_row list" where
  "skewed = [(''A'', ''X'', 7), (''B'', ''Y'', 4)]"

definition twins :: "training_row list" where
  "twins = [(''A'', ''X'', 5), (''A'', ''Y'', 1), (''B'', ''X'', 5), (''B'', ''Y'', 1)]"

text \<open>A frame of three users in which \<open>B\<close> has not rated item \<open>Y\<close>, and the engine
  trained on it, scikit-learn being present.\<close>

definition uneven :: "training_row list" where
  "uneven = [(''A'', ''X'', 3), (''A'', ''Y'', 4), (''B'', ''X'', 5), (''C'', ''X'', 4),
             (''C'', ''Y'', 3)]"

definition trained :: engine where
  "trained = train_collaborative_filtering blank True uneven"

text \<open>Requests: a prediction request whose user identifier is the empty string, and
  feedback requests with rating 0, as the integer without a context and as the float
  with one.\<close>

definition nameless :: "string \<rightharpoonup> pyval" where
  "nameless = [''command'' \<mapsto> PStr ''predict_rating'', ''user_id'' \<mapsto> PStr [],
               ''item_id'' \<mapsto> PStr ''X'']"

definition zero_rated :: "string \<rightharpoonup> pyval" where
  "zero_rated = [''command'' \<mapsto> PStr ''update_feedback'', ''user_id'' \<mapsto> PStr ''A'',
                 ''item_id'' \<mapsto> PStr ''X'', ''rating'' \<mapsto> PInt 0]"

definition zero_rated_note :: "string \<rightharpoonup> pyval" where
  "zero_rated_note = zero_rated(''rating'' \<mapsto> PFloat 0, ''context'' \<mapsto> PStr ''lunch'')"

section \<open>Properties\<close>

lemmas pivot_defs = build_model_def pivot_values_def pivot_users_def pivot_items_def
  pivot_cell_def row_user_def row_item_def row_rating_def

lemmas predict_defs = predict_rating_def predict_collaborative_def neighbour_estimate_def
  matrix_row_def iloc_column_def similar_users_def item_average_def

subsection \<open>Lists, sums and means\<close>

lemma index_of_less: "x \<in> set xs \<Longrightarrow> index_of xs x < length xs"
  by (induction xs) auto

lemma index_of_position:
  "distinct xs \<Longrightarrow> u < length xs \<Longrightarrow> index_of xs (xs ! u) = u"
proof (induction xs arbitrary: u)
  case Nil
  then show ?case by simp
next
  case (Cons x xs)
  show ?case
  proof (cases u)
    case 0
    then show ?thesis by simp
  next
    case (Suc v)
    with Cons.prems have v: "v < length xs" and d: "distinct xs" and "x \<notin> set xs"
      by simp_all
    then have "xs ! v \<noteq> x" using nth_mem[of v xs] by auto
    with Suc Cons.IH[OF d v] show ?thesis by simp
  qed
qed

lemma filter_out_key:
  assumes "distinct (map f xs)" and "k \<in> f ` set xs"
  shows "Suc (length (filter (\<lambda>x. f x \<noteq> k) xs)) = length xs"
  using assms
proof (induction xs)
  case Nil
  then show ?case by simp
next
  case (Cons x xs)
  show ?case
  proof (cases "f x = k")
    case True
    with Cons.prems(1) have "\<forall>y \<in> set xs. f y \<noteq> k" by (auto simp: image_iff)
    then have "filter (\<lambda>x. f x \<noteq> k) xs = xs" by (simp add: filter_id_conv)
    with True show ?thesis by simp
  next
    case False
    with Cons.prems have "distinct (map f xs)" and "k \<in> f ` set xs" by auto
    with Cons.IH False show ?thesis by simp
  qed
qed

lemma map2_same: "map2 f (map g xs) (map h xs) = map (\<lambda>x. f (g x) (h x)) xs"
  by (induction xs) auto

lemma sum_list_filter_upt:
  "sum_list (map f (filter P [0..<n])) = (\<Sum>k \<in> {k. k < n \<and> P k}. f k)"
proof -
  have "distinct (filter P [0..<n])" by simp
  then have "sum_list (map f (filter P [0..<n])) = sum f (set (filter P [0..<n]))"
    by (rule sum_list_distinct_conv_sum_set)
  moreover have "set (filter P [0..<n]) = {k. k < n \<and> P k}" by auto
  ultimately show ?thesis by simp
qed

lemma length_filter_upt: "length (filter P [0..<n]) = card {k. k < n \<and> P k}"
proof -
  have "distinct (filter P [0..<n])" by simp
  then have "card (set (filter P [0..<n])) = length (filter P [0..<n])"
    by (rule distinct_card)
  moreover have "set (filter P [0..<n]) = {k. k < n \<and> P k}" by auto
  ultimately show ?thesis by metis
qed

lemma sum_list_between:
  fixes xs :: "real list"
  assumes "\<And>x. x \<in> set xs \<Longrightarrow> lo \<le> x \<and> x \<le> hi"
  shows "real (length xs) * lo \<le> sum_list xs \<and> sum_list xs \<le> real (length xs) * hi"
  using assms
proof (induction xs)
  case Nil
  show ?case by simp
next
  case (Cons x xs)
  have "lo \<le> x \<and> x \<le> hi" using Cons.prems by simp
  moreover have "real (length xs) * lo \<le> sum_list xs \<and> sum_list xs \<le> real (length xs) * hi"
    using Cons.IH Cons.prems by simp
  ultimately show ?case by (simp add: algebra_simps)
qed

lemma mean_between:
  fixes xs :: "real list"
  assumes "xs \<noteq> []" and "\<And>x. x \<in> set xs \<Longrightarrow> lo \<le> x \<and> x \<le> hi"
  shows "lo \<le> sum_list xs / real (length xs) \<and> sum_list xs / real (length xs) \<le> hi"
proof -
  have n: "0 < real (length xs)" using assms(1) by simp
  from sum_list_between[OF assms(2)] n show ?thesis
    by (simp add: pos_le_divide_eq pos_divide_le_eq mult.commute)
qed

lemma clip_bounds: "lo \<le> hi \<Longrightarrow> lo \<le> clip x lo hi \<and> clip x lo hi \<le> hi"
  by (simp add: clip_def)

subsection \<open>Training\<close>

lemma build_model_well_formed: "well_formed (build_model data)"
  by (simp add: well_formed_def build_model_def Let_def cosine_similarity_def pivot_values_def
      pivot_users_def pivot_items_def list_all_iff)

lemma train_stores_model:
  "data \<noteq> [] \<Longrightarrow>
   map_of (models (train_collaborative_filtering s True data)) ''collaborative'' =
     Some (Collaborative (build_model data))"
  by (simp add: train_collaborative_filtering_def update_conv')

lemma pivot_cell_in_range:
  assumes "\<And>r. r \<in> set data \<Longrightarrow> 1 \<le> row_rating r \<and> row_rating r \<le> 5"
  shows "pivot_cell data u i = 0 \<or> (1 \<le> pivot_cell data u i \<and> pivot_cell data u i \<le> 5)"
proof (cases "map row_rating (filter (\<lambda>r. row_user r = u \<and> row_item r = i) data) = []")
  case True
  then show ?thesis by (simp add: pivot_cell_def)
next
  case False
  have "\<And>x. x \<in> set (map row_rating (filter (\<lambda>r. row_user r = u \<and> row_item r = i) data))
          \<Longrightarrow> 1 \<le> x \<and> x \<le> 5"
    using assms by auto
  from mean_between[OF False this]
  have m: "1 \<le> sum_list (map row_rating (filter (\<lambda>r. row_user r = u \<and> row_item r = i) data)) /
             real (length (map row_rating (filter (\<lambda>r. row_user r = u \<and> row_item r = i) data))) \<and>
           sum_list (map row_rating (filter (\<lambda>r. row_user r = u \<and> row_item r = i) data)) /
             real (length (map row_rating (filter (\<lambda>r. row_user r = u \<and> row_item r = i) data))) \<le> 5" .
  have "pivot_cell data u i =
          sum_list (map row_rating (filter (\<lambda>r. row_user r = u \<and> row_item r = i) data)) /
             real (length (map row_rating (filter (\<lambda>r. row_user r = u \<and> row_item r = i) data)))"
    using False unfolding pivot_cell_def Let_def by (simp only: if_False)
  with m show ?thesis by metis
qed

lemma build_model_in_range:
  assumes "\<And>r. r \<in> set data \<Longrightarrow> 1 \<le> row_rating r \<and> row_rating r \<le> 5"
  shows "ratings_in_range (build_model data)"
  using pivot_cell_in_range[OF assms]
  by (simp add: ratings_in_range_def build_model_def Let_def pivot_values_def list_all_iff)

lemma dot_commute: "dot x y = dot y x"
proof -
  have "map2 (*) x y = map2 (*) y (x :: real list)"
    by (induction x y rule: list_induct2') (simp_all add: mult.commute)
  then show ?thesis by (simp add: dot_def)
qed

lemma cosine_commute: "cosine x y = cosine y x"
  by (auto simp: cosine_def dot_commute[of x y] mult.commute)

lemma cosine_similarity_nth:
  "i < length X \<Longrightarrow> j < length X \<Longrightarrow> cosine_similarity X ! i ! j = cosine (X ! i) (X ! j)"
  by (simp add: cosine_similarity_def)

lemma cosine_similarity_symmetric:
  "i < length X \<Longrightarrow> j < length X \<Longrightarrow> cosine_similarity X ! i ! j = cosine_similarity X ! j ! i"
  by (simp add: cosine_similarity_nth cosine_commute)

subsection \<open>Range of a prediction\<close>

text \<open>No method of the prediction path raises: the functions above are total and the
  failures of the body end in the 0.1-confidence result. The confidence is always
  between 0 and 1.\<close>

lemma item_average_confidence:
  "0 \<le> confidence (item_average rs) \<and> confidence (item_average rs) \<le> 1"
  by (simp add: item_average_def Let_def)

lemma neighbour_estimate_confidence:
  assumes "neighbour_estimate m user item = Inr p"
  shows "0 \<le> confidence p \<and> confidence p \<le> 1"
  using assms item_average_confidence
  by (auto simp: neighbour_estimate_def Let_def split: sum.splits if_splits)

lemma predict_collaborative_confidence:
  "0 \<le> confidence (predict_collaborative model user item) \<and>
   confidence (predict_collaborative model user item) \<le> 1"
proof (cases model)
  case Fallback_marker
  then show ?thesis by (simp add: predict_collaborative_def)
next
  case (Collaborative m)
  show ?thesis
  proof (cases "neighbour_estimate m user item")
    case (Inl e)
    with Collaborative show ?thesis by (simp add: predict_collaborative_def)
  next
    case (Inr p)
    with Collaborative neighbour_estimate_confidence[OF Inr] show ?thesis
      by (simp add: predict_collaborative_def)
  qed
qed

lemma predict_rating_confidence:
  "0 \<le> confidence (predict_rating s user item meth) \<and>
   confidence (predict_rating s user item meth) \<le> 1"
  using predict_collaborative_confidence
  by (simp add: predict_rating_def split: option.splits)

text \<open>The rating is between 1 and 5 as long as the pivot table holds only ratings of
  that range, which training on ratings of that range gives
  (\<open>build_model_in_range\<close>).\<close>

lemma item_average_rating:
  assumes "\<And>r. r \<in> set rs \<Longrightarrow> r = 0 \<or> (1 \<le> r \<and> r \<le> 5)"
  shows "1 \<le> rating (item_average rs) \<and> rating (item_average rs) \<le> 5"
proof (cases "filter (\<lambda>r. r > 0) rs = []")
  case True
  then show ?thesis by (simp add: item_average_def)
next
  case False
  have "\<And>x. x \<in> set (filter (\<lambda>r. r > 0) rs) \<Longrightarrow> 1 \<le> x \<and> x \<le> 5"
    using assms by auto
  from mean_between[OF False this]
  have m: "1 \<le> sum_list (filter (\<lambda>r. r > 0) rs) / real (length (filter (\<lambda>r. r > 0) rs)) \<and>
           sum_list (filter (\<lambda>r. r > 0) rs) / real (length (filter (\<lambda>r. r > 0) rs)) \<le> 5" .
  have "rating (item_average rs) =
          sum_list (filter (\<lambda>r. r > 0) rs) / real (length (filter (\<lambda>r. r > 0) rs))"
    using False by (simp add: item_average_def Let_def)
  with m show ?thesis by (simp only:)
qed

lemma column_in_range:
  assumes "ratings_in_range m" and "iloc_column (pivot_table m) j = Inr col" and "r \<in> set col"
  shows "r = 0 \<or> (1 \<le> r \<and> r \<le> 5)"
proof -
  from assms(2) have col: "col = map (\<lambda>row. row ! j) (pivot_table m)"
    and len: "list_all (\<lambda>row. j < length row) (pivot_table m)"
    by (auto simp: iloc_column_def split: if_splits)
  from assms(3) col obtain row where row: "row \<in> set (pivot_table m)" and r: "r = row ! j"
    by auto
  from len row have "j < length row" by (simp add: list_all_iff)
  then have "row ! j \<in> set row" by simp
  with assms(1) row show ?thesis unfolding r by (auto simp: ratings_in_range_def list_all_iff)
qed

lemma neighbour_estimate_rating:
  assumes "ratings_in_range m" and "neighbour_estimate m user item = Inr p"
  shows "1 \<le> rating p \<and> rating p \<le> 5"
proof -
  from assms(2) obtain col x c where
    col: "iloc_column (pivot_table m) (index_of (item_index m) item) = Inr col"
    and p: "p = \<lparr>rating = clip x 1 5, confidence = c, method_tag = ''collaborative''\<rparr>
            \<or> p = item_average col"
    by (auto simp: neighbour_estimate_def Let_def split: sum.splits if_splits)
  from p show ?thesis
  proof
    assume "p = \<lparr>rating = clip x 1 5, confidence = c, method_tag = ''collaborative''\<rparr>"
    then show ?thesis using clip_bounds[of 1 5] by simp
  next
    assume "p = item_average col"
    then show ?thesis
      using item_average_rating[of col] column_in_range[OF assms(1) col] by blast
  qed
qed

lemma predict_rating_in_range:
  assumes "\<And>m. map_of (models s) ''collaborative'' = Some (Collaborative m) \<Longrightarrow> ratings_in_range m"
  shows "1 \<le> rating (predict_rating s user item meth) \<and> rating (predict_rating s user item meth) \<le> 5"
proof (cases "meth \<in> set [''collaborative'', ''hybrid'']")
  case False
  then show ?thesis by (simp add: predict_rating_def)
next
  case True
  show ?thesis
  proof (cases "map_of (models s) ''collaborative''")
    case None
    with True show ?thesis by (simp add: predict_rating_def)
  next
    case (Some model)
    show ?thesis
    proof (cases model)
      case Fallback_marker
      with Some True show ?thesis by (simp add: predict_rating_def predict_collaborative_def)
    next
      case (Collaborative m)
      have r: "ratings_in_range m" using assms Some Collaborative by simp
      show ?thesis
      proof (cases "neighbour_estimate m user item")
        case (Inl e)
        with Some True Collaborative show ?thesis
          by (simp add: predict_rating_def predict_collaborative_def)
      next
        case (Inr p)
        with Some True Collaborative neighbour_estimate_rating[OF r Inr] show ?thesis
          by (simp add: predict_rating_def predict_collaborative_def)
      qed
    qed
  qed
qed

text \<open>C1. On the item-average path the rating is the mean of the item's observed
  ratings as it is, not clipped to [1,5] as the neighbour-weighted estimate is. Trained
  on a frame in which user \<open>A\<close> rated item \<open>X\<close> 7 and user \<open>B\<close> rated item \<open>Y\<close> 4,
  the engine predicts 7 for \<open>B\<close> and \<open>X\<close>: no user similar to \<open>B\<close> rated \<open>X\<close>, and
  the mean of the observed ratings of \<open>X\<close> is 7, above the range [1,5].\<close>

theorem predict_rating_item_average_unclipped:
  "rating (predict_rating (train_collaborative_filtering blank True skewed) ''B'' ''X'' ''hybrid'') = 7"
  by (simp add: train_collaborative_filtering_def blank_def skewed_def pivot_defs predict_defs
      cosine_similarity_def cosine_def dot_def transposed_def Let_def)

theorem predict_rating_item_average_unclipped_witness:
  "\<not> rating (predict_rating (train_collaborative_filtering blank True skewed) ''B'' ''X'' ''hybrid'') \<le> 5"
  using predict_rating_item_average_unclipped by simp

subsection \<open>The neighbour-weighted estimate\<close>

lemma similar_users_wf:
  assumes wf: "well_formed m" and u: "u < length (user_index m)" and i: "i < length (item_index m)"
  shows "matrix_row (user_similarity m) u = Inr (user_similarity m ! u)"
    and "iloc_column (pivot_table m) i = Inr (map (\<lambda>row. row ! i) (pivot_table m))"
    and "similar_users (user_similarity m ! u) (map (\<lambda>row. row ! i) (pivot_table m)) =
           Inr (filter (\<lambda>k. user_similarity m ! u ! k > 1 / 10 \<and> pivot_table m ! k ! i > 0)
                  [0..<length (user_index m)])"
proof -
  show "matrix_row (user_similarity m) u = Inr (user_similarity m ! u)"
    using wf u by (simp add: matrix_row_def well_formed_def)
  have lp: "length (pivot_table m) = length (user_index m)"
    using wf by (simp add: well_formed_def)
  then have "pivot_table m \<noteq> []" using u by auto
  then show "iloc_column (pivot_table m) i = Inr (map (\<lambda>row. row ! i) (pivot_table m))"
    using wf i by (simp add: iloc_column_def well_formed_def list_all_iff)
  have len: "length (user_similarity m ! u) = length (user_index m)"
    using wf u by (simp add: well_formed_def list_all_length)
  have "filter (\<lambda>k. user_similarity m ! u ! k > 1 / 10 \<and> map (\<lambda>row. row ! i) (pivot_table m) ! k > 0)
          [0..<length (user_index m)] =
        filter (\<lambda>k. user_similarity m ! u ! k > 1 / 10 \<and> pivot_table m ! k ! i > 0)
          [0..<length (user_index m)]"
    by (rule filter_cong) (auto simp: lp)
  then show "similar_users (user_similarity m ! u) (map (\<lambda>row. row ! i) (pivot_table m)) =
           Inr (filter (\<lambda>k. user_similarity m ! u ! k > 1 / 10 \<and> pivot_table m ! k ! i > 0)
                  [0..<length (user_index m)])"
    by (simp add: similar_users_def len lp)
qed

lemma neighbour_estimate_weighted:
  assumes wf: "well_formed m"
    and u: "u < length (user_index m)" "user_index m ! u = user"
    and i: "i < length (item_index m)" "item_index m ! i = item"
    and ne: "neighbour_set m u i \<noteq> {}"
    and pos: "(\<Sum>k \<in> neighbour_set m u i. user_similarity m ! u ! k) > 0"
  shows "neighbour_estimate m user item =
     Inr \<lparr>rating = min 5 (max 1 (weighted_mean m u i)),
          confidence = min (real (card (neighbour_set m u i)) / 10) (9 / 10),
          method_tag = ''collaborative''\<rparr>"
proof -
  define sims where "sims = user_similarity m ! u"
  define col where "col = map (\<lambda>row. row ! i) (pivot_table m)"
  define P where "P = (\<lambda>k. user_similarity m ! u ! k > 1 / 10 \<and> pivot_table m ! k ! i > 0)"
  define sel where "sel = filter P [0..<length (user_index m)]"
  have uidx: "index_of (user_index m) user = u"
    using wf u index_of_position[of "user_index m" u] by (simp add: well_formed_def)
  have iidx: "index_of (item_index m) item = i"
    using wf i index_of_position[of "item_index m" i] by (simp add: well_formed_def)
  have row: "matrix_row (user_similarity m) u = Inr sims"
    and column: "iloc_column (pivot_table m) i = Inr col"
    and similar: "similar_users sims col = Inr sel"
    unfolding sims_def col_def sel_def P_def by (rule similar_users_wf[OF wf u(1) i(1)])+
  have N: "neighbour_set m u i = {k. k < length (user_index m) \<and> P k}"
    by (simp add: neighbour_set_def P_def)
  have lp: "length (pivot_table m) = length (user_index m)"
    using wf by (simp add: well_formed_def)
  have ls: "length sims = length (user_index m)"
    using wf u(1) by (simp add: sims_def well_formed_def list_all_length)
  have positions: "take_positions sims sel = Inr (map (\<lambda>k. sims ! k) sel)"
    by (simp add: take_positions_def sel_def ls list_all_iff)
  have w: "sum_list (map (\<lambda>k. sims ! k) sel) = (\<Sum>k \<in> neighbour_set m u i. user_similarity m ! u ! k)"
    unfolding N sel_def sims_def by (rule sum_list_filter_upt)
  have colk: "map (\<lambda>k. col ! k) sel = map (\<lambda>k. pivot_table m ! k ! i) sel"
    unfolding sel_def col_def by (rule map_cong) (auto simp: lp)
  have "sum_list (map2 (*) (map (\<lambda>k. col ! k) sel) (map (\<lambda>k. sims ! k) sel)) =
        sum_list (map (\<lambda>k. pivot_table m ! k ! i * user_similarity m ! u ! k) sel)"
    unfolding colk map2_same sims_def ..
  also have "\<dots> = (\<Sum>k \<in> neighbour_set m u i. pivot_table m ! k ! i * user_similarity m ! u ! k)"
    unfolding N sel_def by (rule sum_list_filter_upt)
  also have "\<dots> = (\<Sum>k \<in> neighbour_set m u i. user_similarity m ! u ! k * pivot_table m ! k ! i)"
    by (simp add: mult.commute)
  finally have wr: "sum_list (map2 (*) (map (\<lambda>k. col ! k) sel) (map (\<lambda>k. sims ! k) sel)) =
        (\<Sum>k \<in> neighbour_set m u i. user_similarity m ! u ! k * pivot_table m ! k ! i)" .
  have c: "length sel = card (neighbour_set m u i)"
    unfolding N sel_def by (rule length_filter_upt)
  have fin: "finite (neighbour_set m u i)" unfolding N by simp
  have cpos: "0 < length sel" using ne fin c by (simp add: card_gt_0_iff)
  have wpos: "0 < sum_list (map (\<lambda>k. sims ! k) sel)" using pos w by simp
  have avg: "average (map (\<lambda>k. col ! k) sel) (map (\<lambda>k. sims ! k) sel) = weighted_mean m u i"
    unfolding average_def weighted_mean_def wr w ..
  have cl: "clip (weighted_mean m u i) 1 5 = min 5 (max 1 (weighted_mean m u i))"
    by (simp add: clip_def min.commute max.commute)
  have "neighbour_estimate m user item =
     Inr \<lparr>rating = clip (average (map (\<lambda>k. col ! k) sel) (map (\<lambda>k. sims ! k) sel)) 1 5,
          confidence = min (real (length sel) / 10) (9 / 10),
          method_tag = ''collaborative''\<rparr>"
    unfolding neighbour_estimate_def Let_def uidx iidx
    using cpos wpos by (simp add: row column similar positions)
  then show ?thesis unfolding avg cl c .
qed

lemma predict_rating_collaborative:
  assumes "map_of (models s) ''collaborative'' = Some model"
    and "meth = ''collaborative'' \<or> meth = ''hybrid''"
  shows "predict_rating s user item meth = predict_collaborative model user item"
  using assms by (auto simp: predict_rating_def)

text \<open>Any other method is answered by the fallback, whatever the model.\<close>

lemma predict_rating_other_method:
  assumes "meth \<noteq> ''collaborative''" and "meth \<noteq> ''hybrid''"
  shows "predict_rating s user item meth =
           \<lparr>rating = 35 / 10, confidence = 3 / 10, method_tag = ''fallback''\<rparr>"
  using assms by (simp add: predict_rating_def)

text \<open>C2. For a trained model stored under \<open>collaborative\<close> (its labels distinct, its
  matrices of the shape of its indices), the user at position \<open>u\<close> of \<open>user_index\<close>
  and the item at position \<open>i\<close> of \<open>item_index\<close>: when the neighbour set (the users
  whose similarity to the user exceeds 0.1 and whose observed rating of the item is
  above 0) is not empty and its weights sum to a positive number, \<open>predict_rating\<close>
  returns the similarity-weighted average of the neighbours' ratings of the item clipped
  to [1,5], the confidence min(|neighbours| / 10, 0.9) and the method
  \<open>collaborative\<close>. This is the answer to the default method \<open>hybrid\<close> and to
  \<open>collaborative\<close>, the two methods that reach the model.\<close>

theorem predict_rating_neighbour_weighted:
  assumes "map_of (models s) ''collaborative'' = Some (Collaborative m)"
    and "well_formed m"
    and "u < length (user_index m)" and "user_index m ! u = user"
    and "i < length (item_index m)" and "item_index m ! i = item"
    and "neighbour_set m u i \<noteq> {}"
    and "0 < (\<Sum>k \<in> neighbour_set m u i. user_similarity m ! u ! k)"
  shows "predict_rating s user item ''hybrid'' =
     \<lparr>rating = min 5 (max 1 (weighted_mean m u i)),
      confidence = min (real (card (neighbour_set m u i)) / 10) (9 / 10),
      method_tag = ''collaborative''\<rparr>
   \<and> predict_rating s user item ''collaborative'' =
     \<lparr>rating = min 5 (max 1 (weighted_mean m u i)),
      confidence = min (real (card (neighbour_set m u i)) / 10) (9 / 10),
      method_tag = ''collaborative''\<rparr>"
proof -
  have mem: "user \<in> set (user_index m)" "item \<in> set (item_index m)"
    using assms(3-6) nth_mem by auto
  have "predict_collaborative (Collaborative m) user item =
          (case neighbour_estimate m user item of
             Inr p \<Rightarrow> p
           | Inl e \<Rightarrow> \<lparr>rating = 35 / 10, confidence = 1 / 10, method_tag = ''collaborative''\<rparr>)"
    using mem by (simp add: predict_collaborative_def)
  also have "\<dots> = \<lparr>rating = min 5 (max 1 (weighted_mean m u i)),
      confidence = min (real (card (neighbour_set m u i)) / 10) (9 / 10),
      method_tag = ''collaborative''\<rparr>"
    using neighbour_estimate_weighted[OF assms(2-8)] by simp
  finally have r: "predict_collaborative (Collaborative m) user item =
     \<lparr>rating = min 5 (max 1 (weighted_mean m u i)),
      confidence = min (real (card (neighbour_set m u i)) / 10) (9 / 10),
      method_tag = ''collaborative''\<rparr>" .
  have "predict_rating s user item ''hybrid'' = predict_collaborative (Collaborative m) user item"
    using assms(1) by (rule predict_rating_collaborative) simp
  moreover have "predict_rating s user item ''collaborative'' =
      predict_collaborative (Collaborative m) user item"
    using assms(1) by (rule predict_rating_collaborative) simp
  ultimately show ?thesis using r by simp
qed

text \<open>In the engine trained on the frame \<open>uneven\<close>, user \<open>B\<close> (position 1) has not
  rated item \<open>Y\<close> (position 1); the users \<open>A\<close> and \<open>C\<close>, at positions 0 and 2, have
  rated it 4 and 3 and have similarity 3/5 and 4/5 to \<open>B\<close>. The estimate is
  (3/5 * 4 + 4/5 * 3) / (3/5 + 4/5) = 24/7.\<close>

lemma sqrt_25: "sqrt 25 = 5"
  by (rule real_sqrt_unique) simp_all

lemma uneven_model:
  "user_similarity (build_model uneven) ! 1 = [3 / 5, 1, 4 / 5]"
  "user_index (build_model uneven) = [''A'', ''B'', ''C'']"
  "item_index (build_model uneven) = [''X'', ''Y'']"
  "pivot_table (build_model uneven) = [[3, 4], [5, 0], [4, 3]]"
  by (simp_all add: pivot_defs uneven_def Let_def cosine_similarity_def cosine_def dot_def
      sqrt_25)

lemma uneven_neighbours: "neighbour_set (build_model uneven) 1 1 = {0, 2}"
  unfolding neighbour_set_def uneven_model by (auto simp: less_Suc_eq nth_Cons')

theorem predict_rating_neighbour_weighted_witness:
  "predict_rating trained ''B'' ''Y'' ''hybrid'' =
     \<lparr>rating = 24 / 7, confidence = 2 / 10, method_tag = ''collaborative''\<rparr>
   \<and> predict_rating trained ''B'' ''Y'' ''collaborative'' =
     \<lparr>rating = 24 / 7, confidence = 2 / 10, method_tag = ''collaborative''\<rparr>"
proof -
  have wf: "well_formed (build_model uneven)"
    by (rule build_model_well_formed)
  have m: "map_of (models trained) ''collaborative'' = Some (Collaborative (build_model uneven))"
    unfolding trained_def by (rule train_stores_model) (simp add: uneven_def)
  have u: "1 < length (user_index (build_model uneven))"
    "user_index (build_model uneven) ! 1 = ''B''"
    and i: "1 < length (item_index (build_model uneven))"
    "item_index (build_model uneven) ! 1 = ''Y''"
    by (simp_all add: uneven_model)
  have ne: "neighbour_set (build_model uneven) 1 1 \<noteq> {}"
    unfolding uneven_neighbours by simp
  have pos: "0 < (\<Sum>k \<in> neighbour_set (build_model uneven) 1 1.
                     user_similarity (build_model uneven) ! 1 ! k)"
    unfolding uneven_neighbours uneven_model by simp
  have wm: "weighted_mean (build_model uneven) 1 1 = 24 / 7"
    unfolding weighted_mean_def uneven_neighbours uneven_model by simp
  from predict_rating_neighbour_weighted[OF m wf u i ne pos]
  show ?thesis unfolding wm uneven_neighbours by simp
qed

subsection \<open>Predictions without a model\<close>

text \<open>C3, as amended. When \<open>self.models\<close> has no entry \<open>collaborative\<close>, every
  prediction is \<open>{3.5, 0.3, fallback}\<close>. When the entry is the marker, every prediction
  has rating 3.5 and confidence 0.3, and its method is \<open>collaborative\<close> for the requested
  methods \<open>collaborative\<close> and \<open>hybrid\<close>, \<open>fallback\<close> for any other.\<close>

theorem predict_rating_without_model:
  "(map_of (models s) ''collaborative'' = None \<longrightarrow>
      predict_rating s user item meth =
        \<lparr>rating = 35 / 10, confidence = 3 / 10, method_tag = ''fallback''\<rparr>) \<and>
   (map_of (models s) ''collaborative'' = Some Fallback_marker \<longrightarrow>
      predict_rating s user item meth =
        \<lparr>rating = 35 / 10, confidence = 3 / 10,
         method_tag = (if meth = ''collaborative'' \<or> meth = ''hybrid'' then ''collaborative''
                   else ''fallback'')\<rparr>)"
  by (simp add: predict_rating_def predict_collaborative_def)

theorem predict_rating_without_model_witness:
  "predict_rating blank ''u'' ''i'' ''hybrid'' =
     \<lparr>rating = 35 / 10, confidence = 3 / 10, method_tag = ''fallback''\<rparr>
   \<and> predict_rating marked ''u'' ''i'' ''hybrid'' =
     \<lparr>rating = 35 / 10, confidence = 3 / 10, method_tag = ''collaborative''\<rparr>
   \<and> predict_rating marked ''u'' ''i'' ''content'' =
     \<lparr>rating = 35 / 10, confidence = 3 / 10, method_tag = ''fallback''\<rparr>"
proof -
  have b: "map_of (models blank) ''collaborative'' = None"
    by (simp add: blank_def)
  have k: "map_of (models marked) ''collaborative'' = Some Fallback_marker"
    by (simp add: marked_def)
  from predict_rating_without_model[of blank "''u''" "''i''" "''hybrid''"]
    predict_rating_without_model[of marked "''u''" "''i''" "''hybrid''"]
    predict_rating_without_model[of marked "''u''" "''i''" "''content''"]
  show ?thesis using b k by simp
qed

text \<open>With the marker stored, the default method \<open>hybrid\<close> is not answered by
  \<open>{3.5, 0.3, fallback}\<close>.\<close>

theorem predict_rating_marker_counterexample:
  "predict_rating marked ''u'' ''i'' ''hybrid'' \<noteq>
     \<lparr>rating = 35 / 10, confidence = 3 / 10, method_tag = ''fallback''\<rparr>"
  by (simp add: predict_rating_def predict_collaborative_def marked_def)

subsection \<open>Ranking\<close>

lemma slice_to_prefix: "prefix (slice_to xs k) xs"
  by (simp add: slice_to_def take_is_prefix)

lemma sorted_by_score:
  "sorted_wrt (\<lambda>a b. score a \<ge> score b) (sort_key (\<lambda>x. - score x) xs)"
proof -
  have "sorted (map (\<lambda>x. - score x) (sort_key (\<lambda>x. - score x) xs))"
    by (rule sorted_sort_key)
  then show ?thesis by (simp add: sorted_map)
qed

lemma ties_keep_order:
  "filter (\<lambda>x. score x = v) (sort_key (\<lambda>x. - score x) xs) = filter (\<lambda>x. score x = v) xs"
proof -
  have "filter (\<lambda>x. - score x = - v) (sort_key (\<lambda>x. - score x) xs) =
        filter (\<lambda>x. - score x = - v) xs"
    by (rule sort_key_stable)
  then show ?thesis by simp
qed

text \<open>C4, as amended. For \<open>top_k \<ge> 0\<close>, \<open>get_recommendations\<close> returns at most
  \<open>top_k\<close> entries in descending order of \<open>predicted_rating * confidence\<close>; the entries
  of any one score stand in the order of the candidate list (they are a prefix of the
  candidates of that score).\<close>

theorem get_recommendations_ranked:
  assumes "0 \<le> top_k"
  shows "int (length (get_recommendations s user items top_k)) \<le> top_k
    \<and> sorted_wrt (\<lambda>a b. score a \<ge> score b) (get_recommendations s user items top_k)
    \<and> prefix (filter (\<lambda>x. score x = v) (get_recommendations s user items top_k))
        (filter (\<lambda>x. score x = v) (map (recommend s user) items))"
proof (intro conjI)
  show "int (length (get_recommendations s user items top_k)) \<le> top_k"
    using assms by (simp add: get_recommendations_def slice_to_def)
  have p: "prefix (get_recommendations s user items top_k)
             (sort_key (\<lambda>x. - score x) (map (recommend s user) items))"
    unfolding get_recommendations_def by (rule slice_to_prefix)
  then obtain zs where
    "sort_key (\<lambda>x. - score x) (map (recommend s user) items) =
       get_recommendations s user items top_k @ zs"
    by (auto simp: prefix_def)
  with sorted_by_score[of "map (recommend s user) items"]
  show "sorted_wrt (\<lambda>a b. score a \<ge> score b) (get_recommendations s user items top_k)"
    by (simp add: sorted_wrt_append)
  from p have "prefix (filter (\<lambda>x. score x = v) (get_recommendations s user items top_k))
      (filter (\<lambda>x. score x = v) (sort_key (\<lambda>x. - score x) (map (recommend s user) items)))"
    by (rule filter_mono_prefix)
  then show "prefix (filter (\<lambda>x. score x = v) (get_recommendations s user items top_k))
        (filter (\<lambda>x. score x = v) (map (recommend s user) items))"
    by (simp only: ties_keep_order)
qed

theorem get_recommendations_ranked_witness:
  "int (length (get_recommendations blank ''u'' [''B'', ''A''] 1)) \<le> 1
    \<and> sorted_wrt (\<lambda>a b. score a \<ge> score b) (get_recommendations blank ''u'' [''B'', ''A''] 1)
    \<and> prefix (filter (\<lambda>x. score x = 105 / 100) (get_recommendations blank ''u'' [''B'', ''A''] 1))
        (filter (\<lambda>x. score x = 105 / 100) (map (recommend blank ''u'') [''B'', ''A'']))"
proof -
  have "(0::int) \<le> 1" by simp
  then show ?thesis by (rule get_recommendations_ranked)
qed

text \<open>Two candidates of equal score given as \<open>B, A\<close> come back as \<open>B, A\<close>, not by
  ascending identifier.\<close>

theorem get_recommendations_ties_counterexample:
  "\<not> (int (length (get_recommendations blank ''u'' [''B'', ''A''] 2)) \<le> 2 \<and>
      ranked_as_specified (get_recommendations blank ''u'' [''B'', ''A''] 2))"
  by (simp add: ranked_as_specified_def get_recommendations_def slice_to_def recommend_def
      predict_rating_def blank_def score_def)

text \<open>With \<open>top_k = 0\<close> nothing is returned, and with \<open>top_k\<close> at least the number
  of candidates every candidate has its entry. A negative \<open>top_k\<close> leaves all but the
  last \<open>-top_k\<close> entries.\<close>

lemma get_recommendations_zero: "get_recommendations s user items 0 = []"
  by (simp add: get_recommendations_def slice_to_def)

lemma get_recommendations_all:
  assumes "int (length items) \<le> top_k"
  shows "length (get_recommendations s user items top_k) = length items"
    and "set (get_recommendations s user items top_k) = set (map (recommend s user) items)"
  using assms by (simp_all add: get_recommendations_def slice_to_def)

lemma get_recommendations_negative_length:
  "top_k < 0 \<Longrightarrow>
   length (get_recommendations s user items top_k) = nat (int (length items) + top_k)"
  by (simp add: get_recommendations_def slice_to_def)

text \<open>C5. A negative \<open>top_k\<close> does not give the empty sequence: the slice
  \<open>[:top_k]\<close> drops the last entries only. Of three candidates, \<open>top_k = -1\<close>
  returns the first two of the ranking.\<close>

theorem get_recommendations_negative_top_k:
  "map item_id (get_recommendations blank ''u'' [''A'', ''B'', ''C''] (- 1)) = [''A'', ''B'']"
  by (simp add: get_recommendations_def slice_to_def recommend_def predict_rating_def blank_def
      score_def)

theorem get_recommendations_negative_top_k_witness:
  "get_recommendations blank ''u'' [''A'', ''B'', ''C''] (- 1) \<noteq> []"
  using get_recommendations_negative_top_k by auto

subsection \<open>Unseen users and items\<close>

text \<open>C6. For a trained model stored under \<open>collaborative\<close> and the method
  \<open>collaborative\<close> or \<open>hybrid\<close>: when the user is not in \<open>user_index\<close> or the item is
  not in \<open>item_index\<close>, \<open>predict_rating\<close> returns \<open>{3.5, 0.2, collaborative}\<close>; the
  confidence is then at most 0.2.\<close>

theorem predict_rating_unseen:
  assumes "map_of (models s) ''collaborative'' = Some (Collaborative m)"
    and "meth = ''collaborative'' \<or> meth = ''hybrid''"
    and "user \<notin> set (user_index m) \<or> item \<notin> set (item_index m)"
  shows "predict_rating s user item meth =
           \<lparr>rating = 35 / 10, confidence = 2 / 10, method_tag = ''collaborative''\<rparr>
         \<and> confidence (predict_rating s user item meth) \<le> 2 / 10"
proof -
  have "predict_rating s user item meth = predict_collaborative (Collaborative m) user item"
    using assms(1,2) by (rule predict_rating_collaborative)
  also have "\<dots> = \<lparr>rating = 35 / 10, confidence = 2 / 10, method_tag = ''collaborative''\<rparr>"
    using assms(3) by (auto simp: predict_collaborative_def)
  finally show ?thesis by simp
qed

theorem predict_rating_unseen_witness:
  "predict_rating serving ''Z'' ''X'' ''collaborative'' =
     \<lparr>rating = 35 / 10, confidence = 2 / 10, method_tag = ''collaborative''\<rparr>
   \<and> predict_rating serving ''A'' ''W'' ''hybrid'' =
     \<lparr>rating = 35 / 10, confidence = 2 / 10, method_tag = ''collaborative''\<rparr>"
proof -
  have m: "map_of (models serving) ''collaborative'' = Some (Collaborative two_users)"
    by (simp add: serving_def)
  have z: "''Z'' \<notin> set (user_index two_users) \<or> ''X'' \<notin> set (item_index two_users)"
    by (simp add: two_users_def)
  have w: "''A'' \<notin> set (user_index two_users) \<or> ''W'' \<notin> set (item_index two_users)"
    by (simp add: two_users_def)
  from predict_rating_unseen[OF m _ z, of "''collaborative''"]
    predict_rating_unseen[OF m _ w, of "''hybrid''"]
  show ?thesis by simp
qed

subsection \<open>Feedback\<close>

text \<open>C7, as amended. On a table that satisfies its primary key,
  \<open>update_model_with_feedback\<close> stores the new row as the only row of its key, keeps
  every row of another key and adds none, and leaves the primary key satisfied. After
  it \<open>get_model_performance\<close> reports exactly one interaction more than before when no
  stored row had the user, item and timestamp of the new one, and exactly as many as
  before when one had: that row is replaced by the new one.\<close>

theorem feedback_counts:
  assumes "primary_key_holds s"
  shows "(stored \<in> set (user_interactions (update_model_with_feedback s user item r context now))
           \<longleftrightarrow> (if i_user_id stored = user \<and> i_item_id stored = item \<and> i_timestamp stored = now
                 then stored = \<lparr>i_user_id = user, i_item_id = item, i_rating = r,
                                 i_timestamp = now,
                                 i_context = (case context of None \<Rightarrow> [] | Some c \<Rightarrow> c)\<rparr>
                 else stored \<in> set (user_interactions s)))
    \<and> primary_key_holds (update_model_with_feedback s user item r context now)
    \<and> (\<not> key_present s user item now \<longrightarrow>
           total_interactions (get_model_performance
             (update_model_with_feedback s user item r context now)) =
           total_interactions (get_model_performance s) + 1)
    \<and> (key_present s user item now \<longrightarrow>
           total_interactions (get_model_performance
             (update_model_with_feedback s user item r context now)) =
           total_interactions (get_model_performance s))"
proof -
  define new where "new = \<lparr>i_user_id = user, i_item_id = item, i_rating = r, i_timestamp = now,
    i_context = (case context of None \<Rightarrow> [] | Some c \<Rightarrow> c)\<rparr>"
  define rows where "rows = user_interactions s"
  have key: "row_key new = (user, item, now)"
    by (simp add: row_key_def new_def)
  have same: "same_key x new \<longleftrightarrow> row_key x = (user, item, now)" for x
    by (auto simp: same_key_def row_key_def new_def)
  have after: "user_interactions (update_model_with_feedback s user item r context now) =
      filter (\<lambda>x. row_key x \<noteq> (user, item, now)) rows @ [new]"
    by (simp add: update_model_with_feedback_def insert_or_replace_def same[unfolded new_def]
        new_def rows_def)
  have d: "distinct (map row_key rows)"
    using assms by (simp add: primary_key_holds_def rows_def)
  have members: "stored \<in> set (user_interactions (update_model_with_feedback s user item r context now))
           \<longleftrightarrow> (if i_user_id stored = user \<and> i_item_id stored = item \<and> i_timestamp stored = now
                 then stored = \<lparr>i_user_id = user, i_item_id = item, i_rating = r,
                                 i_timestamp = now,
                                 i_context = (case context of None \<Rightarrow> [] | Some c \<Rightarrow> c)\<rparr>
                 else stored \<in> set (user_interactions s))"
    unfolding after new_def[symmetric] rows_def[symmetric]
    using key by (auto simp: row_key_def)
  have "distinct (map row_key (filter (\<lambda>x. row_key x \<noteq> (user, item, now)) rows))"
    using d by (simp add: distinct_map_filter)
  then have unique: "primary_key_holds (update_model_with_feedback s user item r context now)"
    unfolding primary_key_holds_def after using key by auto
  have total: "total_interactions (get_model_performance
        (update_model_with_feedback s user item r context now)) =
        Suc (length (filter (\<lambda>x. row_key x \<noteq> (user, item, now)) rows))"
    unfolding get_model_performance_def after by simp
  have before: "total_interactions (get_model_performance s) = length rows"
    by (simp add: get_model_performance_def rows_def)
  have fresh: "total_interactions (get_model_performance
             (update_model_with_feedback s user item r context now)) =
           total_interactions (get_model_performance s) + 1"
    if "\<not> key_present s user item now"
  proof -
    from that have "\<forall>x \<in> set rows. row_key x \<noteq> (user, item, now)"
      by (auto simp: key_present_def list_ex_iff row_key_def rows_def)
    then have "filter (\<lambda>x. row_key x \<noteq> (user, item, now)) rows = rows"
      by (simp add: filter_id_conv)
    then show ?thesis using total before by simp
  qed
  have clash: "total_interactions (get_model_performance
             (update_model_with_feedback s user item r context now)) =
           total_interactions (get_model_performance s)"
    if "key_present s user item now"
  proof -
    from that have "(user, item, now) \<in> row_key ` set rows"
      by (auto simp: key_present_def list_ex_iff row_key_def rows_def image_iff)
    from filter_out_key[OF d this] show ?thesis
      using total before by simp
  qed
  from members unique fresh clash show ?thesis by blast
qed

theorem feedback_counts_witness:
  "total_interactions (get_model_performance
      (update_model_with_feedback logged ''u'' ''i'' 5 None ''2026-01-02T00:00:00'')) =
   total_interactions (get_model_performance logged) + 1
   \<and> total_interactions (get_model_performance
      (update_model_with_feedback logged ''u'' ''i'' 5 None ''2026-01-01T00:00:00'')) =
   total_interactions (get_model_performance logged)
   \<and> \<lparr>i_user_id = ''u'', i_item_id = ''i'', i_rating = 5,
       i_timestamp = ''2026-01-01T00:00:00'', i_context = []\<rparr>
     \<in> set (user_interactions
         (update_model_with_feedback logged ''u'' ''i'' 5 None ''2026-01-01T00:00:00''))
   \<and> \<lparr>i_user_id = ''u'', i_item_id = ''i'', i_rating = 3,
       i_timestamp = ''2026-01-01T00:00:00'', i_context = []\<rparr>
     \<notin> set (user_interactions
         (update_model_with_feedback logged ''u'' ''i'' 5 None ''2026-01-01T00:00:00''))
   \<and> primary_key_holds
       (update_model_with_feedback logged ''u'' ''i'' 5 None ''2026-01-01T00:00:00'')"
proof -
  have k: "primary_key_holds logged"
    by (simp add: primary_key_holds_def logged_def)
  have a: "\<not> key_present logged ''u'' ''i'' ''2026-01-02T00:00:00''"
    by (simp add: key_present_def logged_def)
  have b: "key_present logged ''u'' ''i'' ''2026-01-01T00:00:00''"
    by (simp add: key_present_def logged_def)
  note new = feedback_counts[OF k, of _ "''u''" "''i''" 5 None "''2026-01-02T00:00:00''"]
  note old = feedback_counts[OF k, of _ "''u''" "''i''" 5 None "''2026-01-01T00:00:00''"]
  have there: "stored \<in> set (user_interactions
         (update_model_with_feedback logged ''u'' ''i'' 5 None ''2026-01-01T00:00:00''))
       \<longleftrightarrow> (if i_user_id stored = ''u'' \<and> i_item_id stored = ''i'' \<and>
                 i_timestamp stored = ''2026-01-01T00:00:00''
             then stored = \<lparr>i_user_id = ''u'', i_item_id = ''i'', i_rating = 5,
                             i_timestamp = ''2026-01-01T00:00:00'', i_context = []\<rparr>
             else stored \<in> set (user_interactions logged))" for stored
    using feedback_counts[OF k, of stored "''u''" "''i''" 5 None "''2026-01-01T00:00:00''"]
    by simp
  have in_new: "\<lparr>i_user_id = ''u'', i_item_id = ''i'', i_rating = 5,
       i_timestamp = ''2026-01-01T00:00:00'', i_context = []\<rparr>
     \<in> set (user_interactions
         (update_model_with_feedback logged ''u'' ''i'' 5 None ''2026-01-01T00:00:00''))"
    by (simp add: there)
  have out_old: "\<lparr>i_user_id = ''u'', i_item_id = ''i'', i_rating = 3,
       i_timestamp = ''2026-01-01T00:00:00'', i_context = []\<rparr>
     \<notin> set (user_interactions
         (update_model_with_feedback logged ''u'' ''i'' 5 None ''2026-01-01T00:00:00''))"
    by (simp add: there)
  from new old in_new out_old a b show ?thesis by simp
qed

text \<open>A second feedback of the same user for the same item at the same reading of the
  clock leaves the count at 1.\<close>

theorem feedback_same_key_counterexample:
  "total_interactions (get_model_performance
      (update_model_with_feedback logged ''u'' ''i'' 5 None ''2026-01-01T00:00:00'')) \<noteq>
   total_interactions (get_model_performance logged) + 1"
  by (simp add: get_model_performance_def update_model_with_feedback_def insert_or_replace_def
      same_key_def logged_def)

subsection \<open>Symmetry of the similarity matrices\<close>

text \<open>C8. In every model built from a training frame, \<open>user_similarity[i][j]\<close> equals
  \<open>user_similarity[j][i]\<close> for all positions of users, and \<open>item_similarity[k][l]\<close>
  equals \<open>item_similarity[l][k]\<close> for all positions of items.\<close>

theorem similarity_symmetric:
  "(i < length (user_index (build_model data)) \<and> j < length (user_index (build_model data)) \<longrightarrow>
      user_similarity (build_model data) ! i ! j = user_similarity (build_model data) ! j ! i) \<and>
   (k < length (item_index (build_model data)) \<and> l < length (item_index (build_model data)) \<longrightarrow>
      item_similarity (build_model data) ! k ! l = item_similarity (build_model data) ! l ! k)"
  by (simp add: build_model_def Let_def pivot_values_def transposed_def cosine_similarity_symmetric)

theorem similarity_symmetric_witness:
  "user_similarity (build_model twins) ! 0 ! 1 = user_similarity (build_model twins) ! 1 ! 0 \<and>
   item_similarity (build_model twins) ! 0 ! 1 = item_similarity (build_model twins) ! 1 ! 0"
proof -
  have u: "length (user_index (build_model twins)) = 2"
    by (simp add: pivot_defs twins_def Let_def)
  have i: "length (item_index (build_model twins)) = 2"
    by (simp add: pivot_defs twins_def Let_def)
  from similarity_symmetric[of 0 twins 1 0 1] show ?thesis
    unfolding u i by simp
qed

subsection \<open>Feedback leaves the model alone\<close>

text \<open>C9. \<open>update_model_with_feedback\<close> leaves \<open>self.models\<close> as it was, so every
  prediction after it is the prediction before it.\<close>

theorem feedback_keeps_models:
  "models (update_model_with_feedback s user item r context now) = models s
   \<and> predict_rating (update_model_with_feedback s user item r context now) u i meth =
       predict_rating s u i meth"
  by (simp add: update_model_with_feedback_def predict_rating_def)

theorem feedback_keeps_models_witness:
  "models (update_model_with_feedback serving ''A'' ''X'' 5 None ''2026-01-01T00:00:00'') = models serving
   \<and> predict_rating (update_model_with_feedback serving ''A'' ''X'' 5 None ''2026-01-01T00:00:00'')
        ''A'' ''X'' ''hybrid'' = predict_rating serving ''A'' ''X'' ''hybrid''"
  using feedback_keeps_models[of serving "''A''" "''X''" 5 None "''2026-01-01T00:00:00''" "''A''" "''X''" "''hybrid''"]
  by simp

subsection \<open>Presence checks at the request boundary\<close>

text \<open>C10. A request whose \<open>user_id\<close> or \<open>item_id\<close> is absent or has any false truth
  value (the empty string among them) is answered by the error
  \<open>Missing user_id or item_id\<close> when it asks for a prediction, and by an error, with the
  state untouched, when it gives feedback; a feedback request with non-empty
  identifiers and rating 0 is accepted and stored.\<close>

theorem bridge_presence_checks:
  "(\<not> truthy (dict_get data ''user_id'') \<or> \<not> truthy (dict_get data ''item_id'') \<longrightarrow>
      handle_rating_prediction s data = Error ''Missing user_id or item_id'' \<and>
      handle_feedback_update s now data = (s, Error ''Missing required fields'')) \<and>
   (data ''user_id'' = Some (PStr u) \<and> u \<noteq> [] \<and> data ''item_id'' = Some (PStr i) \<and> i \<noteq> [] \<and>
    (data ''rating'' = Some (PInt 0) \<or> data ''rating'' = Some (PFloat 0)) \<longrightarrow>
      (data ''context'' = None \<longrightarrow>
         handle_feedback_update s now data =
           (update_model_with_feedback s u i 0 None now, Message_success ''Feedback updated'')) \<and>
      (data ''context'' = Some (PStr c) \<longrightarrow>
         handle_feedback_update s now data =
           (update_model_with_feedback s u i 0 (Some c) now, Message_success ''Feedback updated'')))"
  by (auto simp: handle_rating_prediction_def handle_feedback_update_def dict_get_def Let_def
      bind_rating_def optional_text_def)

theorem bridge_presence_checks_witness:
  "handle_rating_prediction serving nameless = Error ''Missing user_id or item_id'' \<and>
   handle_feedback_update serving ''2026-01-01T00:00:00'' nameless =
     (serving, Error ''Missing required fields'') \<and>
   handle_feedback_update serving ''2026-01-01T00:00:00'' zero_rated =
     (update_model_with_feedback serving ''A'' ''X'' 0 None ''2026-01-01T00:00:00'',
      Message_success ''Feedback updated'') \<and>
   handle_feedback_update serving ''2026-01-01T00:00:00'' zero_rated_note =
     (update_model_with_feedback serving ''A'' ''X'' 0 (Some ''lunch'') ''2026-01-01T00:00:00'',
      Message_success ''Feedback updated'')"
proof -
  have a: "\<not> truthy (dict_get nameless ''user_id'')"
    by (simp add: dict_get_def nameless_def)
  have b: "zero_rated ''user_id'' = Some (PStr ''A'')" "zero_rated ''item_id'' = Some (PStr ''X'')"
    "zero_rated ''rating'' = Some (PInt 0)" "zero_rated ''context'' = None"
    by (simp_all add: zero_rated_def)
  have c: "zero_rated_note ''user_id'' = Some (PStr ''A'')"
    "zero_rated_note ''item_id'' = Some (PStr ''X'')"
    "zero_rated_note ''rating'' = Some (PFloat 0)"
    "zero_rated_note ''context'' = Some (PStr ''lunch'')"
    by (simp_all add: zero_rated_note_def zero_rated_def)
  from bridge_presence_checks[where data = nameless and s = serving
        and now = "''2026-01-01T00:00:00''"]
    bridge_presence_checks[where data = zero_rated and s = serving
        and now = "''2026-01-01T00:00:00''" and u = "''A''" and i = "''X''"]
    bridge_presence_checks[where data = zero_rated_note and s = serving
        and now = "''2026-01-01T00:00:00''" and u = "''A''" and i = "''X''" and c = "''lunch''"]
  show ?thesis using a b c by simp
qed

text \<open>An integer rating that does not fit 64 bits is not stored: the handler answers
  with the text of the exception.\<close>

lemma feedback_integer_overflow:
  "handle_feedback_update serving ''2026-01-01T00:00:00''
     (zero_rated(''rating'' \<mapsto> PInt (2 ^ 63))) =
     (serving, Error ''Python int too large to convert to SQLite INTEGER'')"
  by (simp add: handle_feedback_update_def dict_get_def zero_rated_def bind_rating_def
      optional_text_def)

end
